theory Spec2Isabelle
  imports Complex_Main
begin

section \<open>Gaze calibration and cheating detection\<close>

text \<open>
  A shallow embedding of \<^verbatim>\<open>core/config.py\<close>, \<^verbatim>\<open>core/detect.py\<close> (class
  \<^verbatim>\<open>CheatingDetector\<close>) and \<^verbatim>\<open>core/gaze_calibrator.py\<close> (class
  \<^verbatim>\<open>GazeCalibrator\<close>).

  Conventions of the embedding:
  \<^item> Python floats and the integers mixed with them are real numbers: rounding is not
    modelled. Infinities and NaN are modelled where the code can produce them from finite
    inputs, in the division by a baseline of \<^verbatim>\<open>calibrated_gaze_prediction\<close> (type
    \<open>np_float\<close>).
  \<^item> An object is a record; a method takes the record and returns the values it returns
    together with the updated record. A method that assigns no attribute returns no record.
  \<^item> A method whose name starts with an underscore keeps its name without the underscore.
  \<^item> \<^verbatim>\<open>time.time()\<close> and \<^verbatim>\<open>datetime.now().isoformat()\<close> read the process clock;
    the two readings of one call are an explicit argument, the record \<open>clock\<close>.
  \<^item> \<^verbatim>\<open>None\<close> is \<open>None\<close>; a dictionary with a fixed set of keys is a record, so that a
    present dictionary is never empty and is true in a Python condition.
\<close>

subsection \<open>Configuration (\<^verbatim>\<open>core/config.py\<close>)\<close>

record CheatingDetectionConfig =
  SUSPICIOUS_GAZE_THRESHOLD :: real
  CHEATING_GAZE_THRESHOLD :: real
  ALERT_COOLDOWN :: real
  DOWNWARD_GAZE_ANGLE :: real
  SIDE_GAZE_ANGLE :: real
  HEAD_MOVEMENT_THRESHOLD :: real
  REPEATED_MOVEMENT_COUNT :: int
  MAX_DOWNWARD_LOOKS :: int
  MAX_SIDE_LOOKS :: int
  MAX_HEAD_TURNS :: int
  MAX_SUSPICION_SCORE :: real
  HIGH_SUSPICION_THRESHOLD :: real
  LOOKING_AWAY_PENALTY :: real
  DOWNWARD_LOOK_PENALTY :: real
  SIDE_LOOK_PENALTY :: real
  HEAD_MOVEMENT_PENALTY :: real
  DURATION_MULTIPLIER :: real
  RECOVERY_RATE :: real

text \<open>The class attributes as the module defines them.\<close>

definition default_config :: CheatingDetectionConfig where
  "default_config =
     \<lparr> SUSPICIOUS_GAZE_THRESHOLD = 3.0,
       CHEATING_GAZE_THRESHOLD = 5.0,
       ALERT_COOLDOWN = 10,
       DOWNWARD_GAZE_ANGLE = 0.3,
       SIDE_GAZE_ANGLE = 0.5,
       HEAD_MOVEMENT_THRESHOLD = 0.4,
       REPEATED_MOVEMENT_COUNT = 3,
       MAX_DOWNWARD_LOOKS = 10,
       MAX_SIDE_LOOKS = 8,
       MAX_HEAD_TURNS = 15,
       MAX_SUSPICION_SCORE = 100,
       HIGH_SUSPICION_THRESHOLD = 70,
       LOOKING_AWAY_PENALTY = 0.5,
       DOWNWARD_LOOK_PENALTY = 1.0,
       SIDE_LOOK_PENALTY = 1.5,
       HEAD_MOVEMENT_PENALTY = 2.0,
       DURATION_MULTIPLIER = 2.0,
       RECOVERY_RATE = - 0.2 \<rparr>"

definition set_strict_mode :: "CheatingDetectionConfig \<Rightarrow> CheatingDetectionConfig" where
  "set_strict_mode cls =
     cls\<lparr> SUSPICIOUS_GAZE_THRESHOLD := 2.0,
          CHEATING_GAZE_THRESHOLD := 3.0,
          MAX_DOWNWARD_LOOKS := 5,
          MAX_SIDE_LOOKS := 4,
          HIGH_SUSPICION_THRESHOLD := 50 \<rparr>"

definition set_moderate_mode :: "CheatingDetectionConfig \<Rightarrow> CheatingDetectionConfig" where
  "set_moderate_mode cls =
     cls\<lparr> SUSPICIOUS_GAZE_THRESHOLD := 3.0,
          CHEATING_GAZE_THRESHOLD := 5.0,
          MAX_DOWNWARD_LOOKS := 10,
          MAX_SIDE_LOOKS := 8,
          HIGH_SUSPICION_THRESHOLD := 70 \<rparr>"

definition set_lenient_mode :: "CheatingDetectionConfig \<Rightarrow> CheatingDetectionConfig" where
  "set_lenient_mode cls =
     cls\<lparr> SUSPICIOUS_GAZE_THRESHOLD := 5.0,
          CHEATING_GAZE_THRESHOLD := 8.0,
          MAX_DOWNWARD_LOOKS := 15,
          MAX_SIDE_LOOKS := 12,
          HIGH_SUSPICION_THRESHOLD := 80 \<rparr>"

record alert_message =
  am_message :: string
  am_severity :: string
  am_description :: "string option"

text \<open>\<^verbatim>\<open>ALERT_MESSAGES.get(reason, {'message': reason, 'severity': 'MEDIUM'})\<close>\<close>

definition ALERT_MESSAGES :: "(string \<times> alert_message) list" where
  "ALERT_MESSAGES =
     [ (''PROLONGED_DISTRACTION'',
          \<lparr> am_message = ''Candidate looking away from screen for extended period'',
            am_severity = ''HIGH'',
            am_description =
              Some ''May indicate reading notes or consulting external resources'' \<rparr>),
       (''HIGH_SUSPICION'',
          \<lparr> am_message = ''High suspicion score reached'',
            am_severity = ''HIGH'',
            am_description = Some ''Multiple suspicious behaviors detected'' \<rparr>),
       (''REPETITIVE_PATTERNS'',
          \<lparr> am_message = ''Repetitive suspicious movement patterns detected'',
            am_severity = ''MEDIUM'',
            am_description =
              Some ''Consistent looking away patterns may indicate systematic cheating'' \<rparr>),
       (''RAPID_HEAD_MOVEMENT'',
          \<lparr> am_message = ''Unusual head movement patterns'',
            am_severity = ''MEDIUM'',
            am_description =
              Some ''Rapid or repetitive head movements may indicate communication with others'' \<rparr>) ]"

definition alert_message_for :: "string \<Rightarrow> alert_message" where
  "alert_message_for reason =
     (case map_of ALERT_MESSAGES reason of
        Some m \<Rightarrow> m
      | None \<Rightarrow> \<lparr> am_message = reason, am_severity = ''MEDIUM'', am_description = None \<rparr>)"

definition BEHAVIOR_DESCRIPTIONS :: "(string \<times> string) list" where
  "BEHAVIOR_DESCRIPTIONS =
     [ (''downward_looks'', ''Looking down (potentially reading notes or using phone)''),
       (''side_looks'', ''Looking to the side (potentially viewing other screens or people)''),
       (''head_turns'', ''Frequent head turning (potentially communicating with others)''),
       (''prolonged_absence'', ''Extended periods without face detection''),
       (''rapid_movements'', ''Rapid head movements (potentially checking surroundings)'') ]"

definition behavior_description :: "string \<Rightarrow> string" where
  "behavior_description k =
     (case map_of BEHAVIOR_DESCRIPTIONS k of Some d \<Rightarrow> d | None \<Rightarrow> ''Unknown behavior'')"

subsection \<open>Data of the detector (\<^verbatim>\<open>core/detect.py\<close>)\<close>

record clock =
  time_time :: real
  datetime_now :: string

record repeated_patterns_t =
  downward_looks :: int
  side_looks :: int
  head_turns :: int

record cheating_alert =
  alert_timestamp :: string
  alert_reason :: string
  alert_suspicion_score :: real
  alert_total_away_time :: real
  alert_patterns :: repeated_patterns_t
  alert_info :: alert_message

record calibrated_gaze =
  calibrated_yaw :: real
  calibrated_pitch :: real
  raw_yaw :: real
  raw_pitch :: real
  confidence :: real

record facial_structure =
  face_dimensions :: "real \<times> real"
  eye_distance :: real
  eye_center :: "real \<times> real"
  left_eye :: "real \<times> real"
  right_eye :: "real \<times> real"
  nose_tip :: "real \<times> real"

record CheatingDetector =
  config :: CheatingDetectionConfig
  looking_away_start :: "real option"
  suspicious_events :: "string list"
  cheating_alerts :: "cheating_alert list"
  last_alert_time :: real
  head_movement_history :: "(real \<times> real) list"
  gaze_off_screen_history :: "bool list"
  alert_active :: bool
  total_looking_away_time :: real
  session_start_time :: real
  repeated_patterns :: repeated_patterns_t
  suspicion_score :: real

text \<open>
  \<^verbatim>\<open>extra_data\<close> of \<^verbatim>\<open>_create_detection_result\<close>: the dictionary a full analysis
  passes.
\<close>

record extra_data =
  ex_looking_away_duration :: real
  ex_total_away_time :: real
  ex_suspicion_score :: real
  ex_head_movement_velocity :: real
  ex_yaw :: real
  ex_pitch :: real
  ex_confidence :: real

text \<open>
  The result dictionary: its five keys of every result, and the keys \<^verbatim>\<open>result.update\<close>
  adds (\<^verbatim>\<open>suspicion_score\<close>, in both, is overwritten by the update).
\<close>

record detection_result =
  res_timestamp :: real
  res_is_looking_away :: bool
  res_alert_level :: string
  res_suspicion_score :: real
  res_total_alerts :: nat
  res_extra :: "extra_data option"

text \<open>
  \<^verbatim>\<open>__init__\<close>: \<open>cfg\<close> is the configuration the detector reads, the class attributes of
  \<^verbatim>\<open>CheatingDetectionConfig\<close> when \<^verbatim>\<open>config\<close> is \<^verbatim>\<open>None\<close>.
\<close>

definition CheatingDetector_init :: "CheatingDetectionConfig option \<Rightarrow> clock \<Rightarrow> CheatingDetector" where
  "CheatingDetector_init cfg clk =
     \<lparr> config = (case cfg of None \<Rightarrow> default_config | Some c \<Rightarrow> c),
       looking_away_start = None,
       suspicious_events = [],
       cheating_alerts = [],
       last_alert_time = 0,
       head_movement_history = [],
       gaze_off_screen_history = [],
       alert_active = False,
       total_looking_away_time = 0,
       session_start_time = time_time clk,
       repeated_patterns = \<lparr> downward_looks = 0, side_looks = 0, head_turns = 0 \<rparr>,
       suspicion_score = 0 \<rparr>"

text \<open>\<^verbatim>\<open>deque(maxlen=n).append(x)\<close>: the oldest entries leave on the left.\<close>

definition deque_append :: "nat \<Rightarrow> 'a list \<Rightarrow> 'a \<Rightarrow> 'a list" where
  "deque_append maxlen d x = (let d' = d @ [x] in drop (length d' - maxlen) d')"

subsection \<open>The methods of the detector\<close>

definition create_detection_result ::
  "CheatingDetector \<Rightarrow> bool \<Rightarrow> string \<Rightarrow> real \<Rightarrow> extra_data option \<Rightarrow> detection_result" where
  "create_detection_result self is_away alert_level timestamp extra =
     (let result =
            \<lparr> res_timestamp = timestamp,
              res_is_looking_away = is_away,
              res_alert_level = alert_level,
              res_suspicion_score = suspicion_score self,
              res_total_alerts = length (cheating_alerts self),
              res_extra = None \<rparr>
      in case extra of
           None \<Rightarrow> result
         | Some e \<Rightarrow> result\<lparr> res_suspicion_score := ex_suspicion_score e, res_extra := Some e \<rparr>)"

definition is_looking_away :: "CheatingDetectionConfig \<Rightarrow> real \<Rightarrow> real \<Rightarrow> bool" where
  "is_looking_away cfg yaw pitch =
     (if pitch > DOWNWARD_GAZE_ANGLE cfg then True
      else if \<bar>yaw\<bar> > SIDE_GAZE_ANGLE cfg then True
      else False)"

text \<open>Returns the velocity and the detector with the pose appended to its history.\<close>

definition calculate_head_movement ::
  "CheatingDetector \<Rightarrow> real \<Rightarrow> real \<Rightarrow> real \<times> CheatingDetector" where
  "calculate_head_movement self yaw pitch =
     (let h = deque_append 50 (head_movement_history self) (yaw, pitch);
          self' = self\<lparr> head_movement_history := h \<rparr>
      in if length h < 2 then (0, self')
         else (let prev_pose = h ! (length h - 2)
               in (sqrt ((yaw - fst prev_pose)\<^sup>2 + (pitch - snd prev_pose)\<^sup>2), self')))"

definition update_pattern_detection ::
  "CheatingDetector \<Rightarrow> real \<Rightarrow> real \<Rightarrow> real \<Rightarrow> CheatingDetector" where
  "update_pattern_detection self yaw pitch current_time =
     (let cfg = config self;
          p0 = repeated_patterns self;
          p1 = (if pitch > DOWNWARD_GAZE_ANGLE cfg
                then p0\<lparr> downward_looks := downward_looks p0 + 1 \<rparr> else p0);
          p2 = (if \<bar>yaw\<bar> > SIDE_GAZE_ANGLE cfg
                then p1\<lparr> side_looks := side_looks p1 + 1 \<rparr> else p1);
          p3 = (if \<bar>yaw\<bar> > HEAD_MOVEMENT_THRESHOLD cfg
                then p2\<lparr> head_turns := head_turns p2 + 1 \<rparr> else p2)
      in self\<lparr> repeated_patterns := p3 \<rparr>)"

definition calculate_suspicion_increase ::
  "CheatingDetectionConfig \<Rightarrow> bool \<Rightarrow> real \<Rightarrow> real \<Rightarrow> real \<Rightarrow> real \<Rightarrow> real" where
  "calculate_suspicion_increase cfg is_away duration head_velocity yaw pitch =
     (let increase0 = 0;
          increase1 =
            (if is_away then
               (let i1 = increase0 + LOOKING_AWAY_PENALTY cfg;
                    i2 = (if pitch > DOWNWARD_GAZE_ANGLE cfg
                          then i1 + DOWNWARD_LOOK_PENALTY cfg else i1);
                    i3 = (if \<bar>yaw\<bar> > SIDE_GAZE_ANGLE cfg * 1.5
                          then i2 + SIDE_LOOK_PENALTY cfg else i2)
                in i3)
             else increase0);
          increase2 = (if head_velocity > HEAD_MOVEMENT_THRESHOLD cfg
                       then increase1 + HEAD_MOVEMENT_PENALTY cfg else increase1);
          increase3 = (if duration > SUSPICIOUS_GAZE_THRESHOLD cfg
                       then increase2 * DURATION_MULTIPLIER cfg else increase2);
          increase4 = (if \<not> is_away then RECOVERY_RATE cfg else increase3)
      in increase4)"

definition trigger_alert :: "CheatingDetector \<Rightarrow> string \<Rightarrow> clock \<Rightarrow> CheatingDetector" where
  "trigger_alert self reason clk =
     (let self1 = self\<lparr> last_alert_time := time_time clk, alert_active := True \<rparr>;
          alert =
            \<lparr> alert_timestamp = datetime_now clk,
              alert_reason = reason,
              alert_suspicion_score = suspicion_score self1,
              alert_total_away_time = total_looking_away_time self1,
              alert_patterns = repeated_patterns self1,
              alert_info = alert_message_for reason \<rparr>
      in self1\<lparr> cheating_alerts := cheating_alerts self1 @ [alert] \<rparr>)"

definition determine_alert_level ::
  "CheatingDetector \<Rightarrow> real \<Rightarrow> clock \<Rightarrow> string \<times> CheatingDetector" where
  "determine_alert_level self looking_away_duration clk =
     (let cfg = config self; current_time = time_time clk; p = repeated_patterns self in
      if current_time - last_alert_time self < ALERT_COOLDOWN cfg then
        (if alert_active self then (''ONGOING_ALERT'', self) else (''NO_ALERT'', self))
      else if suspicion_score self > HIGH_SUSPICION_THRESHOLD cfg then
        (''CHEATING_DETECTED'', trigger_alert self ''HIGH_SUSPICION'' clk)
      else if looking_away_duration > CHEATING_GAZE_THRESHOLD cfg then
        (''CHEATING_DETECTED'', trigger_alert self ''PROLONGED_DISTRACTION'' clk)
      else if looking_away_duration > SUSPICIOUS_GAZE_THRESHOLD cfg then
        (''SUSPICIOUS_BEHAVIOR'', self)
      else if downward_looks p > MAX_DOWNWARD_LOOKS cfg
            \<or> side_looks p > MAX_SIDE_LOOKS cfg
            \<or> head_turns p > MAX_HEAD_TURNS cfg then
        (''CHEATING_DETECTED'', trigger_alert self ''REPETITIVE_PATTERNS'' clk)
      else (''NO_ALERT'', self\<lparr> alert_active := False \<rparr>))"

text \<open>
  The duration bookkeeping of \<^verbatim>\<open>analyze_gaze_behavior\<close> (its lines 108 to 120): the
  away duration of this call and the detector with its timer and total updated.
\<close>

definition track_looking_away ::
  "CheatingDetector \<Rightarrow> bool \<Rightarrow> real \<Rightarrow> real \<times> CheatingDetector" where
  "track_looking_away self is_away current_time =
     (if is_away then
        (case looking_away_start self of
           None \<Rightarrow> (current_time - current_time, self\<lparr> looking_away_start := Some current_time \<rparr>)
         | Some start \<Rightarrow> (current_time - start, self))
      else
        (case looking_away_start self of
           Some start \<Rightarrow>
             (0, self\<lparr> total_looking_away_time :=
                         total_looking_away_time self + (current_time - start),
                       looking_away_start := None \<rparr>)
         | None \<Rightarrow> (0, self)))"

text \<open>
  \<^verbatim>\<open>analyze_gaze_behavior(calibrated_gaze, facial_structure, frame_timestamp)\<close>,
  at the clock reading \<open>clk\<close>.
\<close>

definition analyze_gaze_behavior ::
  "CheatingDetector \<Rightarrow> clock \<Rightarrow> calibrated_gaze option \<Rightarrow> facial_structure option \<Rightarrow> 'ts
     \<Rightarrow> detection_result \<times> CheatingDetector" where
  "analyze_gaze_behavior self clk gaze fstruct frame_timestamp =
     (let current_time = time_time clk in
      case gaze of
        None \<Rightarrow> (create_detection_result self False ''No gaze data'' current_time None, self)
      | Some g \<Rightarrow>
         (case fstruct of
            None \<Rightarrow> (create_detection_result self False ''No gaze data'' current_time None, self)
          | Some fs \<Rightarrow>
             (let yaw = calibrated_yaw g; pitch = calibrated_pitch g; conf = confidence g in
              if conf < 0.3 then
                (create_detection_result self False ''Low confidence gaze data'' current_time None,
                 self)
              else
                (let is_away = is_looking_away (config self) yaw pitch;
                     (looking_away_duration, self1) = track_looking_away self is_away current_time;
                     (head_movement_velocity, self2) = calculate_head_movement self1 yaw pitch;
                     self3 = update_pattern_detection self2 yaw pitch current_time;
                     suspicion_increase =
                       calculate_suspicion_increase (config self3) is_away looking_away_duration
                         head_movement_velocity yaw pitch;
                     self4 = self3\<lparr> suspicion_score :=
                               min (MAX_SUSPICION_SCORE (config self3))
                                 (max 0 (suspicion_score self3 + suspicion_increase)) \<rparr>;
                     (alert_level, self5) = determine_alert_level self4 looking_away_duration clk
                 in (create_detection_result self5 is_away alert_level current_time
                       (Some \<lparr> ex_looking_away_duration = looking_away_duration,
                               ex_total_away_time = total_looking_away_time self5,
                               ex_suspicion_score = suspicion_score self5,
                               ex_head_movement_velocity = head_movement_velocity,
                               ex_yaw = yaw,
                               ex_pitch = pitch,
                               ex_confidence = conf \<rparr>),
                     self5)))))"


subsection \<open>Session summary, pattern decay, detection mode\<close>

record behavior_entry =
  be_count :: int
  be_description :: string
  be_severity :: string

record session_summary =
  sum_session_duration :: real
  sum_total_alerts :: nat
  sum_total_looking_away_time :: real
  sum_away_time_percentage :: real
  sum_final_suspicion_score :: real
  sum_repeated_patterns :: repeated_patterns_t
  sum_alerts :: "cheating_alert list"
  sum_behavior_analysis :: "(string \<times> behavior_entry) list"

text \<open>\<^verbatim>\<open>self.repeated_patterns.items()\<close>, in the order the keys were inserted.\<close>

definition pattern_items :: "repeated_patterns_t \<Rightarrow> (string \<times> int) list" where
  "pattern_items p =
     [ (''downward_looks'', downward_looks p),
       (''side_looks'', side_looks p),
       (''head_turns'', head_turns p) ]"

definition generate_behavior_analysis :: "CheatingDetector \<Rightarrow> (string \<times> behavior_entry) list" where
  "generate_behavior_analysis self =
     map (\<lambda>(pattern_type, count).
            (pattern_type,
             \<lparr> be_count = count,
               be_description = behavior_description pattern_type,
               be_severity = (if count > 10 then ''HIGH''
                              else if count > 5 then ''MEDIUM'' else ''LOW'') \<rparr>))
       (filter (\<lambda>(pattern_type, count). count > 0) (pattern_items (repeated_patterns self)))"

text \<open>
  \<^verbatim>\<open>get_session_summary\<close> assigns no attribute of the detector; it reads the clock once.
\<close>

definition get_session_summary :: "CheatingDetector \<Rightarrow> clock \<Rightarrow> session_summary" where
  "get_session_summary self clk =
     (let session_duration = time_time clk - session_start_time self in
      \<lparr> sum_session_duration = session_duration,
        sum_total_alerts = length (cheating_alerts self),
        sum_total_looking_away_time = total_looking_away_time self,
        sum_away_time_percentage =
          (if session_duration > 0
           then (total_looking_away_time self / session_duration) * 100 else 0),
        sum_final_suspicion_score = suspicion_score self,
        sum_repeated_patterns = repeated_patterns self,
        sum_alerts = cheating_alerts self,
        sum_behavior_analysis = generate_behavior_analysis self \<rparr>)"

definition reset_patterns :: "CheatingDetector \<Rightarrow> CheatingDetector" where
  "reset_patterns self =
     (let p = repeated_patterns self in
      self\<lparr> repeated_patterns :=
              \<lparr> downward_looks = max 0 (downward_looks p - 1),
                side_looks = max 0 (side_looks p - 1),
                head_turns = max 0 (head_turns p - 1) \<rparr> \<rparr>)"

text \<open>
  \<^verbatim>\<open>set_detection_mode\<close> rewrites class attributes of the configuration, which the
  detector reads at every later call.
\<close>

definition set_detection_mode :: "CheatingDetector \<Rightarrow> string \<Rightarrow> CheatingDetector" where
  "set_detection_mode self mode =
     (if mode = ''strict'' then self\<lparr> config := set_strict_mode (config self) \<rparr>
      else if mode = ''lenient'' then self\<lparr> config := set_lenient_mode (config self) \<rparr>
      else self\<lparr> config := set_moderate_mode (config self) \<rparr>)"

subsection \<open>Sessions\<close>

text \<open>
  One call of \<^verbatim>\<open>analyze_gaze_behavior\<close>: the clock reading at the call and its three
  arguments.
\<close>

record frame =
  fr_clock :: clock
  fr_gaze :: "calibrated_gaze option"
  fr_structure :: "facial_structure option"
  fr_timestamp :: real

text \<open>A sequence of calls on one detector: the results in order, and the final detector.\<close>

fun run_analysis :: "CheatingDetector \<Rightarrow> frame list \<Rightarrow> detection_result list \<times> CheatingDetector" where
  "run_analysis self [] = ([], self)"
| "run_analysis self (f # fs) =
     (let (r, self1) =
            analyze_gaze_behavior self (fr_clock f) (fr_gaze f) (fr_structure f) (fr_timestamp f);
          (rs, self2) = run_analysis self1 fs
      in (r # rs, self2))"

text \<open>
  The detectors a session can hold: one built with the default configuration, then any
  calls of its state-changing methods.
\<close>

inductive reachable :: "CheatingDetector \<Rightarrow> bool" where
  reachable_init: "reachable (CheatingDetector_init None clk)"
| reachable_analyze:
    "reachable self \<Longrightarrow>
     reachable (snd (analyze_gaze_behavior self clk gaze fstruct (ts :: real)))"
| reachable_reset: "reachable self \<Longrightarrow> reachable (reset_patterns self)"
| reachable_mode: "reachable self \<Longrightarrow> reachable (set_detection_mode self mode)"


subsection \<open>The calibrator (\<^verbatim>\<open>core/gaze_calibrator.py\<close>)\<close>


record face_baseline_t =
  fb_width :: real
  fb_height :: real
  fb_width_std :: real
  fb_height_std :: real

record eye_baseline_t =
  eb_distance :: real
  eb_distance_std :: real

record head_pose_baseline_t =
  hp_yaw :: real
  hp_pitch :: real
  hp_yaw_std :: real
  hp_pitch_std :: real

record calibration_data_t =
  cd_eye_distances :: "real list"
  cd_face_dimensions :: "(real \<times> real) list"
  cd_head_poses :: "(real \<times> real) list"
  cd_pupil_positions :: "(real \<times> real) list"

record GazeCalibrator =
  face_baseline :: "face_baseline_t option"
  eye_baseline :: "eye_baseline_t option"
  head_pose_baseline :: "head_pose_baseline_t option"
  adaptation_frames :: int
  frame_count :: int
  calibration_data :: calibration_data_t

text \<open>
  The raw detection of one face, as far as the calibrator reads it: the keys
  \<^verbatim>\<open>yaw\<close> and \<^verbatim>\<open>pitch\<close>, each of which may be missing
  (\<^verbatim>\<open>gaze_data.get('yaw', 0)\<close>).
\<close>

record gaze_data =
  gd_yaw :: "real option"
  gd_pitch :: "real option"

definition get_or :: "'a option \<Rightarrow> 'a \<Rightarrow> 'a" where
  "get_or v d = (case v of Some x \<Rightarrow> x | None \<Rightarrow> d)"

definition GazeCalibrator_init :: GazeCalibrator where
  "GazeCalibrator_init =
     \<lparr> face_baseline = None,
       eye_baseline = None,
       head_pose_baseline = None,
       adaptation_frames = 30,
       frame_count = 0,
       calibration_data =
         \<lparr> cd_eye_distances = [], cd_face_dimensions = [],
           cd_head_poses = [], cd_pupil_positions = [] \<rparr> \<rparr>"

text \<open>
  \<^verbatim>\<open>np.mean\<close> and \<^verbatim>\<open>np.std\<close> (the population standard deviation) of a
  sequence. The calibrator calls them on non-empty sequences only.
\<close>

definition np_mean :: "real list \<Rightarrow> real" where
  "np_mean xs = sum_list xs / real (length xs)"

definition np_std :: "real list \<Rightarrow> real" where
  "np_std xs = sqrt (np_mean (map (\<lambda>x. \<bar>x - np_mean xs\<bar>\<^sup>2) xs))"


definition establish_baseline :: "GazeCalibrator \<Rightarrow> GazeCalibrator" where
  "establish_baseline self =
     (let cd = calibration_data self in
      if length (cd_face_dimensions cd) > 0 then
        self\<lparr> face_baseline :=
                Some \<lparr> fb_width = np_mean (map fst (cd_face_dimensions cd)),
                       fb_height = np_mean (map snd (cd_face_dimensions cd)),
                       fb_width_std = np_std (map fst (cd_face_dimensions cd)),
                       fb_height_std = np_std (map snd (cd_face_dimensions cd)) \<rparr>,
              eye_baseline :=
                Some \<lparr> eb_distance = np_mean (cd_eye_distances cd),
                       eb_distance_std = np_std (cd_eye_distances cd) \<rparr>,
              head_pose_baseline :=
                Some \<lparr> hp_yaw = np_mean (map fst (cd_head_poses cd)),
                       hp_pitch = np_mean (map snd (cd_head_poses cd)),
                       hp_yaw_std = np_std (map fst (cd_head_poses cd)),
                       hp_pitch_std = np_std (map snd (cd_head_poses cd)) \<rparr> \<rparr>
      else self)"

definition update_baseline ::
  "GazeCalibrator \<Rightarrow> gaze_data \<Rightarrow> facial_structure option \<Rightarrow> bool \<times> GazeCalibrator" where
  "update_baseline self gaze fstruct =
     (case fstruct of
        None \<Rightarrow> (False, self)
      | Some fs \<Rightarrow>
         (let cd = calibration_data self;
              cd1 = cd\<lparr> cd_face_dimensions := cd_face_dimensions cd @ [face_dimensions fs] \<rparr>;
              cd2 = cd1\<lparr> cd_eye_distances := cd_eye_distances cd1 @ [eye_distance fs] \<rparr>;
              yaw = get_or (gd_yaw gaze) 0;
              pitch = get_or (gd_pitch gaze) 0;
              cd3 = cd2\<lparr> cd_head_poses := cd_head_poses cd2 @ [(yaw, pitch)] \<rparr>;
              self1 = self\<lparr> calibration_data := cd3, frame_count := frame_count self + 1 \<rparr>
          in if frame_count self1 \<ge> adaptation_frames self1
             then (True, establish_baseline self1)
             else (False, self1)))"

definition is_calibrated :: "GazeCalibrator \<Rightarrow> bool" where
  "is_calibrated self =
     (face_baseline self \<noteq> None \<and> eye_baseline self \<noteq> None \<and> head_pose_baseline self \<noteq> None)"









text \<open>
  A sequence of \<^verbatim>\<open>update_baseline\<close> calls on one calibrator: what each call returned,
  and the final calibrator.
\<close>

fun run_updates ::
  "GazeCalibrator \<Rightarrow> (gaze_data \<times> facial_structure option) list \<Rightarrow> bool list \<times> GazeCalibrator" where
  "run_updates self [] = ([], self)"
| "run_updates self ((gaze, fstruct) # rest) =
     (let (b, self1) = update_baseline self gaze fstruct;
          (bs, self2) = run_updates self1 rest
      in (b # bs, self2))"

subsection \<open>Concrete inputs\<close>

text \<open>Inputs at which the theorems below are evaluated.\<close>

definition clock_at :: "real \<Rightarrow> clock" where
  "clock_at t = \<lparr> time_time = t, datetime_now = ''2024-01-01T00:00:00'' \<rparr>"

definition gaze_of :: "real \<Rightarrow> real \<Rightarrow> real \<Rightarrow> calibrated_gaze" where
  "gaze_of yaw pitch conf =
     \<lparr> calibrated_yaw = yaw, calibrated_pitch = pitch, raw_yaw = yaw, raw_pitch = pitch,
       confidence = conf \<rparr>"

definition structure_of :: "real \<Rightarrow> real \<Rightarrow> facial_structure" where
  "structure_of w h =
     \<lparr> face_dimensions = (w, h), eye_distance = 60, eye_center = (0, 0),
       left_eye = (-30, 0), right_eye = (30, 0), nose_tip = (0, 30) \<rparr>"

definition looking_down :: calibrated_gaze where
  "looking_down = gaze_of 0 0.5 0.9"

definition at_screen :: calibrated_gaze where
  "at_screen = gaze_of 0 0 0.9"

definition low_confidence :: calibrated_gaze where
  "low_confidence = gaze_of 0 0 0.1"

definition frame_at :: "real \<Rightarrow> calibrated_gaze option \<Rightarrow> frame" where
  "frame_at t gaze =
     \<lparr> fr_clock = clock_at t, fr_gaze = gaze, fr_structure = Some (structure_of 150 200),
       fr_timestamp = 0 \<rparr>"

text \<open>
  The detector after one frame looking down at time 100, and after a second one at time 106,
  which fires an alert (lemmas \<open>first_away_run\<close> and \<open>alert_fired_run\<close>).
\<close>

definition first_away :: CheatingDetector where
  "first_away =
     (CheatingDetector_init None (clock_at 0))
       \<lparr> looking_away_start := Some 100,
         head_movement_history := [(0, 0.5)],
         repeated_patterns := \<lparr> downward_looks = 1, side_looks = 0, head_turns = 0 \<rparr>,
         suspicion_score := 1.5 \<rparr>"

definition alert_fired :: CheatingDetector where
  "alert_fired =
     (CheatingDetector_init None (clock_at 0))
       \<lparr> looking_away_start := Some 100,
         cheating_alerts :=
           [\<lparr> alert_timestamp = datetime_now (clock_at 106),
              alert_reason = ''PROLONGED_DISTRACTION'',
              alert_suspicion_score = 4.5,
              alert_total_away_time = 0,
              alert_patterns = \<lparr> downward_looks = 2, side_looks = 0, head_turns = 0 \<rparr>,
              alert_info = alert_message_for ''PROLONGED_DISTRACTION'' \<rparr>],
         last_alert_time := 106,
         head_movement_history := [(0, 0.5), (0, 0.5)],
         alert_active := True,
         repeated_patterns := \<lparr> downward_looks = 2, side_looks = 0, head_turns = 0 \<rparr>,
         suspicion_score := 4.5 \<rparr>"

definition raw_gaze :: "real \<Rightarrow> real \<Rightarrow> gaze_data" where
  "raw_gaze yaw pitch = \<lparr> gd_yaw = Some yaw, gd_pitch = Some pitch \<rparr>"

text \<open>
  The calibrator after thirty identical frames: a face of 100 by 100, eyes 60 apart, yaw and
  pitch 0 (lemma \<open>calibrated_example_run\<close>).
\<close>

definition calibrated_example :: GazeCalibrator where
  "calibrated_example =
     \<lparr> face_baseline =
         Some \<lparr> fb_width = 100, fb_height = 100, fb_width_std = 0, fb_height_std = 0 \<rparr>,
       eye_baseline = Some \<lparr> eb_distance = 60, eb_distance_std = 0 \<rparr>,
       head_pose_baseline =
         Some \<lparr> hp_yaw = 0, hp_pitch = 0, hp_yaw_std = 0, hp_pitch_std = 0 \<rparr>,
       adaptation_frames = 30,
       frame_count = 30,
       calibration_data =
         \<lparr> cd_eye_distances = replicate 30 60,
           cd_face_dimensions = replicate 30 (100, 100),
           cd_head_poses = replicate 30 (0, 0),
           cd_pupil_positions = [] \<rparr> \<rparr>"


section \<open>Properties of the detector\<close>

subsection \<open>Fields the helper methods leave alone\<close>

lemma trigger_alert_fields:
  "config (trigger_alert s r c) = config s"
  "suspicion_score (trigger_alert s r c) = suspicion_score s"
  "last_alert_time (trigger_alert s r c) = time_time c"
  "alert_active (trigger_alert s r c) = True"
  "length (cheating_alerts (trigger_alert s r c)) = Suc (length (cheating_alerts s))"
  by (simp_all add: trigger_alert_def Let_def)

lemma determine_alert_level_keeps:
  "config (snd (determine_alert_level s d c)) = config s"
  "suspicion_score (snd (determine_alert_level s d c)) = suspicion_score s"
  by (simp_all add: determine_alert_level_def Let_def trigger_alert_fields)

lemma determine_alert_level_cooldown:
  assumes "time_time c - last_alert_time s < ALERT_COOLDOWN (config s)"
  shows "determine_alert_level s d c =
           (if alert_active s then ''ONGOING_ALERT'' else ''NO_ALERT'', s)"
  using assms by (simp add: determine_alert_level_def Let_def)

lemma determine_alert_level_fired:
  assumes "cheating_alerts (snd (determine_alert_level s d c)) \<noteq> cheating_alerts s"
  shows "last_alert_time (snd (determine_alert_level s d c)) = time_time c
         \<and> alert_active (snd (determine_alert_level s d c))"
  using assms
  by (auto simp: determine_alert_level_def Let_def trigger_alert_fields split: if_splits)

lemma update_pattern_detection_keeps:
  "config (update_pattern_detection s y p t) = config s"
  "suspicion_score (update_pattern_detection s y p t) = suspicion_score s"
  "last_alert_time (update_pattern_detection s y p t) = last_alert_time s"
  "alert_active (update_pattern_detection s y p t) = alert_active s"
  "cheating_alerts (update_pattern_detection s y p t) = cheating_alerts s"
  by (simp_all add: update_pattern_detection_def Let_def)

lemma calculate_head_movement_keeps:
  "config (snd (calculate_head_movement s y p)) = config s"
  "suspicion_score (snd (calculate_head_movement s y p)) = suspicion_score s"
  "last_alert_time (snd (calculate_head_movement s y p)) = last_alert_time s"
  "alert_active (snd (calculate_head_movement s y p)) = alert_active s"
  "cheating_alerts (snd (calculate_head_movement s y p)) = cheating_alerts s"
  by (simp_all add: calculate_head_movement_def Let_def)

lemma track_looking_away_keeps:
  "config (snd (track_looking_away s a t)) = config s"
  "suspicion_score (snd (track_looking_away s a t)) = suspicion_score s"
  "last_alert_time (snd (track_looking_away s a t)) = last_alert_time s"
  "alert_active (snd (track_looking_away s a t)) = alert_active s"
  "cheating_alerts (snd (track_looking_away s a t)) = cheating_alerts s"
  by (simp_all add: track_looking_away_def split: option.splits)

lemmas keeps =
  determine_alert_level_keeps update_pattern_detection_keeps calculate_head_movement_keeps
  track_looking_away_keeps

lemma analyze_rejected:
  assumes "gaze = None \<or> fstruct = None \<or> (\<exists>g. gaze = Some g \<and> confidence g < 0.3)"
  shows "snd (analyze_gaze_behavior s c gaze fstruct ts) = s"
  using assms
  by (auto simp: analyze_gaze_behavior_def Let_def split: option.splits)

lemma analyze_config: "config (snd (analyze_gaze_behavior s c gaze fstruct ts)) = config s"
  by (simp add: analyze_gaze_behavior_def Let_def case_prod_beta keeps split: option.splits)

lemma analyze_accepted_score:
  assumes "\<not> confidence g < 0.3"
  shows "suspicion_score (snd (analyze_gaze_behavior s c (Some g) (Some fs) ts)) =
           min (MAX_SUSPICION_SCORE (config s))
             (max 0 (suspicion_score s +
                calculate_suspicion_increase (config s)
                  (is_looking_away (config s) (calibrated_yaw g) (calibrated_pitch g))
                  (fst (track_looking_away s
                     (is_looking_away (config s) (calibrated_yaw g) (calibrated_pitch g))
                     (time_time c)))
                  (fst (calculate_head_movement
                     (snd (track_looking_away s
                        (is_looking_away (config s) (calibrated_yaw g) (calibrated_pitch g))
                        (time_time c)))
                     (calibrated_yaw g) (calibrated_pitch g)))
                  (calibrated_yaw g) (calibrated_pitch g)))"
  using assms
  by (simp add: analyze_gaze_behavior_def Let_def case_prod_beta keeps)

lemma analyze_score_cases:
  "suspicion_score (snd (analyze_gaze_behavior s c gaze fstruct ts)) = suspicion_score s
   \<or> (\<exists>x. suspicion_score (snd (analyze_gaze_behavior s c gaze fstruct ts)) =
            min (MAX_SUSPICION_SCORE (config s)) (max 0 x))"
proof (cases "gaze = None \<or> fstruct = None \<or> (\<exists>g. gaze = Some g \<and> confidence g < 0.3)")
  case True
  then show ?thesis by (simp add: analyze_rejected)
next
  case False
  then obtain g fs where "gaze = Some g" "fstruct = Some fs" "\<not> confidence g < 0.3"
    by auto
  then show ?thesis using analyze_accepted_score [of g s c fs ts] by blast
qed

lemma analyze_preserves_bounds:
  assumes "0 \<le> MAX_SUSPICION_SCORE (config s)"
    and "0 \<le> suspicion_score s" and "suspicion_score s \<le> MAX_SUSPICION_SCORE (config s)"
  shows "0 \<le> suspicion_score (snd (analyze_gaze_behavior s c gaze fstruct ts))
       \<and> suspicion_score (snd (analyze_gaze_behavior s c gaze fstruct ts))
           \<le> MAX_SUSPICION_SCORE (config s)"
  using analyze_score_cases [of s c gaze fstruct ts] assms by auto

lemma set_detection_mode_keeps:
  "MAX_SUSPICION_SCORE (config (set_detection_mode s m)) = MAX_SUSPICION_SCORE (config s)"
  "RECOVERY_RATE (config (set_detection_mode s m)) = RECOVERY_RATE (config s)"
  "suspicion_score (set_detection_mode s m) = suspicion_score s"
  by (simp_all add: set_detection_mode_def set_strict_mode_def set_lenient_mode_def
        set_moderate_mode_def)

lemma reachable_invariant:
  assumes "reachable s"
  shows "MAX_SUSPICION_SCORE (config s) = 100 \<and> RECOVERY_RATE (config s) = - 0.2
         \<and> 0 \<le> suspicion_score s \<and> suspicion_score s \<le> 100"
  using assms
proof (induction rule: reachable.induct)
  case (reachable_init clk)
  show ?case by (simp add: CheatingDetector_init_def default_config_def)
next
  case (reachable_analyze self clk gaze fstruct ts)
  then show ?case
    using analyze_preserves_bounds [of self clk gaze fstruct ts]
    by (simp add: analyze_config)
next
  case (reachable_reset self)
  then show ?case by (simp add: reset_patterns_def Let_def)
next
  case (reachable_mode self mode)
  then show ?case by (simp add: set_detection_mode_keeps)
qed


subsection \<open>Calls that pass the input checks\<close>

lemma not_away_increase:
  assumes "pitch \<le> DOWNWARD_GAZE_ANGLE cfg" and "\<bar>yaw\<bar> \<le> SIDE_GAZE_ANGLE cfg"
  shows "calculate_suspicion_increase cfg (is_looking_away cfg yaw pitch) d v yaw pitch
           = RECOVERY_RATE cfg"
  using assms by (simp add: calculate_suspicion_increase_def is_looking_away_def Let_def)

lemma analyze_recovery_step:
  assumes "\<not> confidence g < 0.3"
    and "calibrated_pitch g \<le> DOWNWARD_GAZE_ANGLE (config s)"
    and "\<bar>calibrated_yaw g\<bar> \<le> SIDE_GAZE_ANGLE (config s)"
  shows "suspicion_score (snd (analyze_gaze_behavior s c (Some g) (Some fs) ts)) =
           min (MAX_SUSPICION_SCORE (config s))
             (max 0 (suspicion_score s + RECOVERY_RATE (config s)))"
  using assms by (simp add: analyze_accepted_score not_away_increase)

lemma max_recovery:
  fixes x r n :: real
  assumes "r \<le> 0" and "0 \<le> n"
  shows "max 0 (max 0 (x + r) + n * r) = max 0 (x + (1 + n) * r)"
proof -
  have "n * r \<le> 0" using assms by (simp add: mult_nonneg_nonpos)
  then show ?thesis by (auto simp: max_def algebra_simps)
qed

lemma recovery_run:
  assumes "reachable s"
    and "\<forall>f \<in> set frames. \<exists>g fs. fr_gaze f = Some g \<and> fr_structure f = Some fs
           \<and> 0.3 \<le> confidence g
           \<and> calibrated_pitch g \<le> DOWNWARD_GAZE_ANGLE (config s)
           \<and> \<bar>calibrated_yaw g\<bar> \<le> SIDE_GAZE_ANGLE (config s)"
  shows "suspicion_score (snd (run_analysis s frames)) =
           max 0 (suspicion_score s + real (length frames) * RECOVERY_RATE (config s))
         \<and> config (snd (run_analysis s frames)) = config s"
  using assms
proof (induction frames arbitrary: s)
  case Nil
  then show ?case using reachable_invariant [of s] by simp
next
  case (Cons f frames)
  from Cons.prems(2) obtain g fs where f: "fr_gaze f = Some g" "fr_structure f = Some fs"
    "\<not> confidence g < 0.3" "calibrated_pitch g \<le> DOWNWARD_GAZE_ANGLE (config s)"
    "\<bar>calibrated_yaw g\<bar> \<le> SIDE_GAZE_ANGLE (config s)"
    by force
  let ?s1 = "snd (analyze_gaze_behavior s (fr_clock f) (fr_gaze f) (fr_structure f) (fr_timestamp f))"
  have r1: "reachable ?s1" using Cons.prems(1) by (rule reachable_analyze)
  have c1: "config ?s1 = config s" by (rule analyze_config)
  have inv: "MAX_SUSPICION_SCORE (config s) = 100" "RECOVERY_RATE (config s) = - 0.2"
    "0 \<le> suspicion_score s" "suspicion_score s \<le> 100"
    using reachable_invariant [OF Cons.prems(1)] by simp_all
  have s1: "suspicion_score ?s1 = max 0 (suspicion_score s + RECOVERY_RATE (config s))"
    using analyze_recovery_step [OF f(3,4,5), of "fr_clock f" fs "fr_timestamp f"] f(1,2) inv
    by simp
  have "\<forall>f \<in> set frames. \<exists>g fs. fr_gaze f = Some g \<and> fr_structure f = Some fs
           \<and> 0.3 \<le> confidence g
           \<and> calibrated_pitch g \<le> DOWNWARD_GAZE_ANGLE (config ?s1)
           \<and> \<bar>calibrated_yaw g\<bar> \<le> SIDE_GAZE_ANGLE (config ?s1)"
    using Cons.prems(2) c1 by simp
  from Cons.IH [OF r1 this]
  have ih: "suspicion_score (snd (run_analysis ?s1 frames)) =
          max 0 (suspicion_score ?s1 + real (length frames) * RECOVERY_RATE (config s))"
      "config (snd (run_analysis ?s1 frames)) = config s"
    using c1 by simp_all
  have run: "snd (run_analysis s (f # frames)) = snd (run_analysis ?s1 frames)"
    by (simp add: case_prod_beta)
  have "suspicion_score (snd (run_analysis s (f # frames))) =
      max 0 (max 0 (suspicion_score s + RECOVERY_RATE (config s))
             + real (length frames) * RECOVERY_RATE (config s))"
    using run ih(1) s1 by simp
  also have "\<dots> = max 0 (suspicion_score s + (1 + real (length frames)) * RECOVERY_RATE (config s))"
    using max_recovery [of "RECOVERY_RATE (config s)" "real (length frames)" "suspicion_score s"] inv(2)
    by simp
  finally show ?case using run ih(2) by (simp add: algebra_simps)
qed

lemma analyze_accepted_shape:
  assumes "\<not> confidence g < 0.3"
  shows "\<exists>S d. snd (analyze_gaze_behavior s c (Some g) (Some fs) ts) = snd (determine_alert_level S d c)
           \<and> res_alert_level (fst (analyze_gaze_behavior s c (Some g) (Some fs) ts))
               = fst (determine_alert_level S d c)
           \<and> cheating_alerts S = cheating_alerts s
           \<and> last_alert_time S = last_alert_time s
           \<and> alert_active S = alert_active s
           \<and> config S = config s"
  using assms
  apply (simp add: analyze_gaze_behavior_def Let_def case_prod_beta create_detection_result_def)
  apply (rule exI, rule exI, intro conjI, rule refl)
      apply (simp_all add: keeps)
  done

lemma analyze_fired:
  assumes "cheating_alerts (snd (analyze_gaze_behavior s c gaze fstruct ts)) \<noteq> cheating_alerts s"
  shows "last_alert_time (snd (analyze_gaze_behavior s c gaze fstruct ts)) = time_time c
         \<and> alert_active (snd (analyze_gaze_behavior s c gaze fstruct ts))"
proof (cases "gaze = None \<or> fstruct = None \<or> (\<exists>g. gaze = Some g \<and> confidence g < 0.3)")
  case True
  then show ?thesis using assms by (simp add: analyze_rejected)
next
  case False
  then obtain g fs where gf: "gaze = Some g" "fstruct = Some fs" "\<not> confidence g < 0.3"
    by auto
  from analyze_accepted_shape [OF gf(3), of s c fs ts] obtain S d where
    S: "snd (analyze_gaze_behavior s c gaze fstruct ts) = snd (determine_alert_level S d c)"
      "cheating_alerts S = cheating_alerts s"
    using gf by auto
  with assms have "cheating_alerts (snd (determine_alert_level S d c)) \<noteq> cheating_alerts S"
    by simp
  from determine_alert_level_fired [OF this] S(1) show ?thesis by simp
qed

lemma analyze_in_cooldown:
  assumes "time_time c - last_alert_time s < ALERT_COOLDOWN (config s)"
  shows "cheating_alerts (snd (analyze_gaze_behavior s c gaze fstruct ts)) = cheating_alerts s
       \<and> last_alert_time (snd (analyze_gaze_behavior s c gaze fstruct ts)) = last_alert_time s
       \<and> alert_active (snd (analyze_gaze_behavior s c gaze fstruct ts)) = alert_active s
       \<and> res_alert_level (fst (analyze_gaze_behavior s c gaze fstruct ts)) =
           (case gaze of
              None \<Rightarrow> ''No gaze data''
            | Some g \<Rightarrow>
               (case fstruct of
                  None \<Rightarrow> ''No gaze data''
                | Some fs \<Rightarrow>
                   if confidence g < 0.3 then ''Low confidence gaze data''
                   else if alert_active s then ''ONGOING_ALERT'' else ''NO_ALERT''))"
proof (cases "gaze = None \<or> fstruct = None \<or> (\<exists>g. gaze = Some g \<and> confidence g < 0.3)")
  case True
  then show ?thesis
    by (auto simp: analyze_gaze_behavior_def create_detection_result_def Let_def
        split: option.splits)
next
  case False
  then obtain g fs where gf: "gaze = Some g" "fstruct = Some fs" "\<not> confidence g < 0.3"
    by auto
  from analyze_accepted_shape [OF gf(3), of s c fs ts] obtain S d where
    S: "snd (analyze_gaze_behavior s c gaze fstruct ts) = snd (determine_alert_level S d c)"
      "res_alert_level (fst (analyze_gaze_behavior s c gaze fstruct ts))
               = fst (determine_alert_level S d c)"
      "cheating_alerts S = cheating_alerts s" "last_alert_time S = last_alert_time s"
      "alert_active S = alert_active s" "config S = config s"
    using gf by auto
  have "time_time c - last_alert_time S < ALERT_COOLDOWN (config S)"
    using assms S by simp
  from determine_alert_level_cooldown [OF this, of d] S gf show ?thesis by simp
qed

lemma cooldown_run:
  assumes "alert_active s"
    and "\<forall>f \<in> set frames. time_time (fr_clock f) - last_alert_time s < ALERT_COOLDOWN (config s)"
  shows "cheating_alerts (snd (run_analysis s frames)) = cheating_alerts s
       \<and> last_alert_time (snd (run_analysis s frames)) = last_alert_time s
       \<and> alert_active (snd (run_analysis s frames))
       \<and> map res_alert_level (fst (run_analysis s frames)) =
           map (\<lambda>f. case fr_gaze f of
                       None \<Rightarrow> ''No gaze data''
                     | Some g \<Rightarrow>
                        (case fr_structure f of
                           None \<Rightarrow> ''No gaze data''
                         | Some fs \<Rightarrow>
                            if confidence g < 0.3 then ''Low confidence gaze data''
                            else ''ONGOING_ALERT'')) frames"
  using assms
proof (induction frames arbitrary: s)
  case Nil
  then show ?case by simp
next
  case (Cons f frames)
  let ?A = "analyze_gaze_behavior s (fr_clock f) (fr_gaze f) (fr_structure f) (fr_timestamp f)"
  have w: "time_time (fr_clock f) - last_alert_time s < ALERT_COOLDOWN (config s)"
    using Cons.prems(2) by simp
  note step = analyze_in_cooldown [OF w, of "fr_gaze f" "fr_structure f" "fr_timestamp f"]
  have a1: "alert_active (snd ?A)" using step Cons.prems(1) by simp
  have w1: "\<forall>f \<in> set frames.
      time_time (fr_clock f) - last_alert_time (snd ?A) < ALERT_COOLDOWN (config (snd ?A))"
    using Cons.prems(2) step by (simp add: analyze_config)
  note ih = Cons.IH [OF a1 w1]
  have run: "run_analysis s (f # frames) =
      (fst ?A # fst (run_analysis (snd ?A) frames), snd (run_analysis (snd ?A) frames))"
    by (simp add: case_prod_beta)
  show ?case
    using ih step Cons.prems(1) unfolding run
    by (simp split: option.splits)
qed

subsection \<open>The concrete session\<close>

lemmas eval_defs =
  analyze_gaze_behavior_def Let_def track_looking_away_def calculate_head_movement_def
  deque_append_def update_pattern_detection_def calculate_suspicion_increase_def
  determine_alert_level_def trigger_alert_def create_detection_result_def is_looking_away_def
  clock_at_def looking_down_def gaze_of_def structure_of_def

lemma first_away_run:
  "analyze_gaze_behavior (CheatingDetector_init None (clock_at 0)) (clock_at 100)
     (Some looking_down) (Some (structure_of 150 200)) (0 :: real) =
   (\<lparr> res_timestamp = 100, res_is_looking_away = True, res_alert_level = ''NO_ALERT'',
      res_suspicion_score = 1.5, res_total_alerts = 0,
      res_extra = Some \<lparr> ex_looking_away_duration = 0, ex_total_away_time = 0,
                         ex_suspicion_score = 1.5, ex_head_movement_velocity = 0,
                         ex_yaw = 0, ex_pitch = 0.5, ex_confidence = 0.9 \<rparr> \<rparr>,
    first_away)"
  by (simp add: eval_defs first_away_def CheatingDetector_init_def default_config_def)

lemma alert_fired_run:
  "analyze_gaze_behavior first_away (clock_at 106)
     (Some looking_down) (Some (structure_of 150 200)) (0 :: real) =
   (\<lparr> res_timestamp = 106, res_is_looking_away = True, res_alert_level = ''CHEATING_DETECTED'',
      res_suspicion_score = 4.5, res_total_alerts = 1,
      res_extra = Some \<lparr> ex_looking_away_duration = 6, ex_total_away_time = 0,
                         ex_suspicion_score = 4.5, ex_head_movement_velocity = 0,
                         ex_yaw = 0, ex_pitch = 0.5, ex_confidence = 0.9 \<rparr> \<rparr>,
    alert_fired)"
  by (simp add: eval_defs first_away_def alert_fired_def CheatingDetector_init_def
      default_config_def)

lemma first_away_reachable: "reachable first_away"
  using reachable_analyze [OF reachable_init, of "clock_at 0" "clock_at 100"
      "Some looking_down" "Some (structure_of 150 200)" 0]
  by (simp add: first_away_run)

lemma first_away_fields:
  "config first_away = default_config" "suspicion_score first_away = 1.5"
  "cheating_alerts first_away = []"
  by (simp_all add: first_away_def CheatingDetector_init_def)

lemma alert_fired_fields:
  "config alert_fired = default_config" "alert_active alert_fired"
  "last_alert_time alert_fired = 106" "length (cheating_alerts alert_fired) = 1"
  by (simp_all add: alert_fired_def CheatingDetector_init_def)

subsection \<open>The suspicion score stays in its range\<close>

text \<open>
  C1. For every reachable detector and every input of \<^verbatim>\<open>analyze_gaze_behavior\<close>, the
  suspicion score after the call lies between 0 and \<^verbatim>\<open>MAX_SUSPICION_SCORE\<close>.
\<close>

theorem suspicion_score_bounded:
  assumes "reachable s"
  shows "0 \<le> suspicion_score (snd (analyze_gaze_behavior s c gaze fstruct (ts :: real)))
       \<and> suspicion_score (snd (analyze_gaze_behavior s c gaze fstruct ts))
           \<le> MAX_SUSPICION_SCORE (config (snd (analyze_gaze_behavior s c gaze fstruct ts)))"
  using reachable_invariant [OF reachable_analyze [OF assms, of c gaze fstruct ts]]
  by simp

theorem suspicion_score_bounded_witness:
  "reachable (CheatingDetector_init None (clock_at 0))
   \<and> 0 \<le> suspicion_score (snd (analyze_gaze_behavior (CheatingDetector_init None (clock_at 0))
              (clock_at 1) (Some looking_down) (Some (structure_of 150 200)) (0 :: real)))
   \<and> suspicion_score (snd (analyze_gaze_behavior (CheatingDetector_init None (clock_at 0))
          (clock_at 1) (Some looking_down) (Some (structure_of 150 200)) (0 :: real)))
       \<le> 100"
proof -
  have r: "reachable (CheatingDetector_init None (clock_at 0))"
    by (rule reachable_init)
  show ?thesis
    using r suspicion_score_bounded [OF r, of "clock_at 1" "Some looking_down"
        "Some (structure_of 150 200)" 0]
    by (simp add: analyze_config CheatingDetector_init_def default_config_def)
qed

subsection \<open>Rejected inputs\<close>

text \<open>
  C3, as the code has it. When the calibrated gaze or the facial structure is absent, or the
  confidence is below 0.3, \<^verbatim>\<open>analyze_gaze_behavior\<close> leaves the whole detector unchanged
  and returns a result that is not looking away, carries the current score and alert count,
  and whose \<^verbatim>\<open>alert_level\<close> is the message \<^verbatim>\<open>No gaze data\<close> (an input is absent) or
  \<^verbatim>\<open>Low confidence gaze data\<close> (both present, confidence below 0.3).
\<close>

theorem rejected_input_result:
  assumes "gaze = None \<or> fstruct = None \<or> (\<exists>g. gaze = Some g \<and> confidence g < 0.3)"
  shows "analyze_gaze_behavior self clk gaze fstruct ts =
     (\<lparr> res_timestamp = time_time clk, res_is_looking_away = False,
        res_alert_level = (if gaze = None \<or> fstruct = None then ''No gaze data''
                           else ''Low confidence gaze data''),
        res_suspicion_score = suspicion_score self,
        res_total_alerts = length (cheating_alerts self),
        res_extra = None \<rparr>, self)"
  using assms
  by (auto simp: analyze_gaze_behavior_def create_detection_result_def Let_def
      split: option.splits)

theorem rejected_input_result_witness:
  "analyze_gaze_behavior (CheatingDetector_init None (clock_at 0)) (clock_at 1)
     (Some low_confidence) (Some (structure_of 150 200)) (0 :: real) =
     (\<lparr> res_timestamp = 1, res_is_looking_away = False,
        res_alert_level = ''Low confidence gaze data'',
        res_suspicion_score = 0, res_total_alerts = 0, res_extra = None \<rparr>,
      CheatingDetector_init None (clock_at 0))"
  using rejected_input_result [of "Some low_confidence" "Some (structure_of 150 200)"
      "CheatingDetector_init None (clock_at 0)" "clock_at 1" "0 :: real"]
  by (simp add: low_confidence_def gaze_of_def clock_at_def CheatingDetector_init_def)

text \<open>
  The claim as written fails: with the gaze absent the returned \<^verbatim>\<open>alert_level\<close> is
  \<^verbatim>\<open>No gaze data\<close>, with a confidence of 0.1 it is \<^verbatim>\<open>Low confidence gaze data\<close>;
  neither is \<^verbatim>\<open>NO_ALERT\<close>.
\<close>

theorem rejected_input_level_counterexample:
  "res_alert_level (fst (analyze_gaze_behavior (CheatingDetector_init None (clock_at 0))
      (clock_at 1) None (Some (structure_of 150 200)) (0 :: real))) \<noteq> ''NO_ALERT''
   \<and> res_alert_level (fst (analyze_gaze_behavior (CheatingDetector_init None (clock_at 0))
      (clock_at 1) (Some low_confidence) (Some (structure_of 150 200)) (0 :: real)))
       \<noteq> ''NO_ALERT''"
  by (simp add: analyze_gaze_behavior_def create_detection_result_def low_confidence_def
      gaze_of_def)

subsection \<open>The suspicion delta\<close>

text \<open>
  C4, as the code has it. The head-movement penalty counts only while the subject is looking
  away: there the delta is the sum of the base penalty, the downward and side penalties that
  apply and \<^verbatim>\<open>HEAD_MOVEMENT_PENALTY\<close> when the velocity exceeds
  \<^verbatim>\<open>HEAD_MOVEMENT_THRESHOLD\<close>, times \<^verbatim>\<open>DURATION_MULTIPLIER\<close> when the duration exceeds
  \<^verbatim>\<open>SUSPICIOUS_GAZE_THRESHOLD\<close>. When the subject is not looking away the delta is
  \<^verbatim>\<open>RECOVERY_RATE\<close>, whatever the velocity.
\<close>

theorem suspicion_increase_formula:
  "calculate_suspicion_increase cfg is_away duration head_velocity yaw pitch =
   (if is_away then
      (LOOKING_AWAY_PENALTY cfg
        + (if pitch > DOWNWARD_GAZE_ANGLE cfg then DOWNWARD_LOOK_PENALTY cfg else 0)
        + (if \<bar>yaw\<bar> > SIDE_GAZE_ANGLE cfg * 1.5 then SIDE_LOOK_PENALTY cfg else 0)
        + (if head_velocity > HEAD_MOVEMENT_THRESHOLD cfg then HEAD_MOVEMENT_PENALTY cfg else 0))
      * (if duration > SUSPICIOUS_GAZE_THRESHOLD cfg then DURATION_MULTIPLIER cfg else 1)
    else RECOVERY_RATE cfg)"
  by (simp add: calculate_suspicion_increase_def Let_def)

text \<open>
  The claim as written fails: not looking away, with a head velocity of 1 (above the threshold
  of 0.4), the delta is the recovery rate \<open>- 0.2\<close> and not the recovery rate plus the
  head-movement penalty.
\<close>

theorem head_penalty_counterexample:
  "HEAD_MOVEMENT_THRESHOLD default_config < 1
   \<and> calculate_suspicion_increase default_config False 0 1 0 0 = - 0.2
   \<and> calculate_suspicion_increase default_config False 0 1 0 0
       \<noteq> RECOVERY_RATE default_config + HEAD_MOVEMENT_PENALTY default_config"
  by (simp add: calculate_suspicion_increase_def Let_def default_config_def)

subsection \<open>The frame timestamp\<close>

text \<open>
  C10. \<^verbatim>\<open>analyze_gaze_behavior\<close> never reads its \<^verbatim>\<open>frame_timestamp\<close> argument: two calls
  that agree on the detector, the clock reading and the gaze inputs return the same result and
  the same detector, whatever the two frame timestamps are.
\<close>

theorem frame_timestamp_never_read:
  "analyze_gaze_behavior self clk gaze fstruct ts1 =
   analyze_gaze_behavior self clk gaze fstruct ts2"
  by (simp add: analyze_gaze_behavior_def)

subsection \<open>Recovery\<close>

text \<open>
  C8. From a reachable detector, over any sequence of calls that pass the input checks
  (confidence at least 0.3) and in which the subject never looks away (pitch at most
  \<^verbatim>\<open>DOWNWARD_GAZE_ANGLE\<close> and absolute yaw at most \<^verbatim>\<open>SIDE_GAZE_ANGLE\<close>), the suspicion
  score after the first \<open>n\<close> calls is the starting score plus \<open>n\<close> times
  \<^verbatim>\<open>RECOVERY_RATE\<close>, floored at 0: it goes down by 0.2 per frame until it reaches 0 and
  stays there.
\<close>

theorem recovery:
  assumes "reachable s"
    and "\<forall>f \<in> set frames. \<exists>g fs. fr_gaze f = Some g \<and> fr_structure f = Some fs
           \<and> 0.3 \<le> confidence g
           \<and> calibrated_pitch g \<le> DOWNWARD_GAZE_ANGLE (config s)
           \<and> \<bar>calibrated_yaw g\<bar> \<le> SIDE_GAZE_ANGLE (config s)"
    and "n \<le> length frames"
  shows "suspicion_score (snd (run_analysis s (take n frames))) =
           max 0 (suspicion_score s + real n * RECOVERY_RATE (config s))"
proof -
  have "\<forall>f \<in> set (take n frames). \<exists>g fs. fr_gaze f = Some g \<and> fr_structure f = Some fs
           \<and> 0.3 \<le> confidence g
           \<and> calibrated_pitch g \<le> DOWNWARD_GAZE_ANGLE (config s)
           \<and> \<bar>calibrated_yaw g\<bar> \<le> SIDE_GAZE_ANGLE (config s)"
    using assms(2) by (meson in_set_takeD)
  from recovery_run [OF assms(1) this] assms(3) show ?thesis by simp
qed

theorem recovery_witness:
  "reachable first_away
   \<and> suspicion_score (snd (run_analysis first_away
        (take 2 [frame_at 101 (Some at_screen), frame_at 102 (Some at_screen),
                 frame_at 103 (Some at_screen)]))) = 1.1
   \<and> suspicion_score (snd (run_analysis first_away
        (take 8 [frame_at 101 (Some at_screen), frame_at 102 (Some at_screen),
                 frame_at 103 (Some at_screen), frame_at 104 (Some at_screen),
                 frame_at 105 (Some at_screen), frame_at 106 (Some at_screen),
                 frame_at 107 (Some at_screen), frame_at 108 (Some at_screen)]))) = 0"
proof -
  have h3: "\<forall>f \<in> set [frame_at 101 (Some at_screen), frame_at 102 (Some at_screen),
                 frame_at 103 (Some at_screen)].
       \<exists>g fs. fr_gaze f = Some g \<and> fr_structure f = Some fs
           \<and> 0.3 \<le> confidence g
           \<and> calibrated_pitch g \<le> DOWNWARD_GAZE_ANGLE (config first_away)
           \<and> \<bar>calibrated_yaw g\<bar> \<le> SIDE_GAZE_ANGLE (config first_away)"
    by (simp add: frame_at_def at_screen_def gaze_of_def first_away_fields default_config_def)
  have h8: "\<forall>f \<in> set [frame_at 101 (Some at_screen), frame_at 102 (Some at_screen),
                 frame_at 103 (Some at_screen), frame_at 104 (Some at_screen),
                 frame_at 105 (Some at_screen), frame_at 106 (Some at_screen),
                 frame_at 107 (Some at_screen), frame_at 108 (Some at_screen)].
       \<exists>g fs. fr_gaze f = Some g \<and> fr_structure f = Some fs
           \<and> 0.3 \<le> confidence g
           \<and> calibrated_pitch g \<le> DOWNWARD_GAZE_ANGLE (config first_away)
           \<and> \<bar>calibrated_yaw g\<bar> \<le> SIDE_GAZE_ANGLE (config first_away)"
    by (simp add: frame_at_def at_screen_def gaze_of_def first_away_fields default_config_def)
  from recovery [OF first_away_reachable h3, of 2] recovery [OF first_away_reachable h8, of 8]
  show ?thesis
    using first_away_reachable
    by (simp add: first_away_fields default_config_def)
qed

subsection \<open>Cooldown\<close>

lemma run_analysis_Cons:
  "run_analysis s (f # frames) =
     (fst (analyze_gaze_behavior s (fr_clock f) (fr_gaze f) (fr_structure f) (fr_timestamp f))
        # fst (run_analysis (snd (analyze_gaze_behavior s (fr_clock f) (fr_gaze f)
                 (fr_structure f) (fr_timestamp f))) frames),
      snd (run_analysis (snd (analyze_gaze_behavior s (fr_clock f) (fr_gaze f)
                 (fr_structure f) (fr_timestamp f))) frames))"
  by (simp add: case_prod_beta)

lemma run_analysis_take:
  "fst (run_analysis s (take n frames)) = take n (fst (run_analysis s frames))"
proof (induction frames arbitrary: s n)
  case Nil
  show ?case by simp
next
  case (Cons f frames)
  show ?case
  proof (cases n)
    case 0
    then show ?thesis by simp
  next
    case (Suc m)
    then show ?thesis
      using Cons.IH by (simp add: run_analysis_Cons del: run_analysis.simps)
  qed
qed

lemma run_analysis_length: "length (fst (run_analysis s frames)) = length frames"
proof (induction frames arbitrary: s)
  case Nil
  show ?case by simp
next
  case (Cons f frames)
  then show ?case by (simp add: run_analysis_Cons del: run_analysis.simps)
qed

lemma increasing_prefix_in_window:
  fixes ts :: "real list"
  assumes "sorted_wrt (<) ts" and "i < length ts" and "ts ! i < b" and "j \<le> i"
  shows "ts ! j < b"
proof (cases "j = i")
  case True
  with assms(3) show ?thesis by simp
next
  case False
  with assms(4) have "j < i" by simp
  from sorted_wrt_nth_less [OF assms(1) this assms(2)] assms(3) show ?thesis by simp
qed

text \<open>
  C5, as the code has it. In a sequence of calls with strictly increasing times, once a call
  at time \<open>T\<close> has fired an alert, up to and including any later call at a time earlier than
  \<open>T\<close> plus \<^verbatim>\<open>ALERT_COOLDOWN\<close> the alert log is the one the firing call left and
  \<^verbatim>\<open>last_alert_time\<close> is \<open>T\<close>, whatever the score, the away duration and the pattern
  counters are. \<^verbatim>\<open>alert_active\<close> holds when such a call is made; if the call passes the
  input checks it returns \<^verbatim>\<open>ONGOING_ALERT\<close> if \<^verbatim>\<open>alert_active\<close> holds and
  \<^verbatim>\<open>NO_ALERT\<close> otherwise, and if it is rejected it returns its rejection message as the
  alert level.
\<close>

theorem alert_cooldown:
  assumes "cheating_alerts (snd (analyze_gaze_behavior s c gaze fstruct ts)) \<noteq> cheating_alerts s"
    and "sorted_wrt (<) (time_time c # map (\<lambda>f. time_time (fr_clock f)) frames)"
    and "i < length frames"
    and "time_time (fr_clock (frames ! i)) < time_time c + ALERT_COOLDOWN (config s)"
  shows "cheating_alerts (snd (run_analysis (snd (analyze_gaze_behavior s c gaze fstruct ts))
             (take (Suc i) frames)))
           = cheating_alerts (snd (analyze_gaze_behavior s c gaze fstruct ts))
       \<and> last_alert_time (snd (run_analysis (snd (analyze_gaze_behavior s c gaze fstruct ts))
             (take (Suc i) frames)))
           = time_time c
       \<and> alert_active (snd (run_analysis (snd (analyze_gaze_behavior s c gaze fstruct ts))
             (take i frames)))
       \<and> res_alert_level
           (fst (run_analysis (snd (analyze_gaze_behavior s c gaze fstruct ts)) frames) ! i) =
           (case fr_gaze (frames ! i) of
              None \<Rightarrow> ''No gaze data''
            | Some g \<Rightarrow>
               (case fr_structure (frames ! i) of
                  None \<Rightarrow> ''No gaze data''
                | Some fs \<Rightarrow>
                   if confidence g < 0.3 then ''Low confidence gaze data''
                   else if alert_active (snd (run_analysis
                             (snd (analyze_gaze_behavior s c gaze fstruct ts)) (take i frames)))
                        then ''ONGOING_ALERT'' else ''NO_ALERT''))"
proof -
  let ?s1 = "snd (analyze_gaze_behavior s c gaze fstruct ts)"
  let ?level = "\<lambda>f. case fr_gaze f of
                       None \<Rightarrow> ''No gaze data''
                     | Some g \<Rightarrow>
                        (case fr_structure f of
                           None \<Rightarrow> ''No gaze data''
                         | Some fs \<Rightarrow>
                            if confidence g < 0.3 then ''Low confidence gaze data''
                            else ''ONGOING_ALERT'')"
  from analyze_fired [OF assms(1)]
  have f: "last_alert_time ?s1 = time_time c" "alert_active ?s1" by simp_all
  have inc: "sorted_wrt (<) (map (\<lambda>f. time_time (fr_clock f)) frames)"
    using assms(2) by simp
  have win: "time_time (fr_clock (frames ! j)) < time_time c + ALERT_COOLDOWN (config s)"
    if "j \<le> i" for j
    using increasing_prefix_in_window [OF inc _ _ that,
        of "time_time c + ALERT_COOLDOWN (config s)"] assms(3,4) that
    by simp
  have w: "\<forall>f \<in> set (take n frames).
      time_time (fr_clock f) - last_alert_time ?s1 < ALERT_COOLDOWN (config ?s1)"
    if "n \<le> Suc i" for n
  proof
    fix x assume "x \<in> set (take n frames)"
    then obtain j where j: "j < length (take n frames)" "x = take n frames ! j"
      by (auto simp: in_set_conv_nth)
    then have "j \<le> i" "x = frames ! j" using that by simp_all
    with win [of j] f(1) show "time_time (fr_clock x) - last_alert_time ?s1
        < ALERT_COOLDOWN (config ?s1)"
      by (simp add: analyze_config)
  qed
  note after = cooldown_run [OF f(2) w [of "Suc i"], simplified]
  note before = cooldown_run [OF f(2) w [of i], simplified]
  have "res_alert_level (fst (run_analysis ?s1 frames) ! i)
      = map res_alert_level (fst (run_analysis ?s1 (take (Suc i) frames))) ! i"
    using assms(3) by (simp add: run_analysis_take run_analysis_length)
  also have "\<dots> = map ?level (take (Suc i) frames) ! i"
    using after by simp
  also have "\<dots> = ?level (take (Suc i) frames ! i)"
    using assms(3) by (intro nth_map) simp
  also have "take (Suc i) frames ! i = frames ! i"
    by simp
  finally have lvl: "res_alert_level (fst (run_analysis ?s1 frames) ! i) = ?level (frames ! i)" .
  show ?thesis
    using after before f(1) lvl by (simp split: option.splits)
qed

theorem alert_cooldown_witness:
  "cheating_alerts (snd (analyze_gaze_behavior first_away (clock_at 106) (Some looking_down)
       (Some (structure_of 150 200)) (0 :: real))) \<noteq> cheating_alerts first_away
   \<and> res_alert_level (fst (run_analysis alert_fired
        [frame_at 107 None, frame_at 110 (Some looking_down),
         frame_at 115 (Some low_confidence), frame_at 120 (Some looking_down)]) ! 1)
       = ''ONGOING_ALERT''
   \<and> last_alert_time (snd (run_analysis alert_fired
        (take 2 [frame_at 107 None, frame_at 110 (Some looking_down),
         frame_at 115 (Some low_confidence), frame_at 120 (Some looking_down)]))) = 106"
proof -
  let ?frames = "[frame_at 107 None, frame_at 110 (Some looking_down),
         frame_at 115 (Some low_confidence), frame_at 120 (Some looking_down)]"
  have fired: "cheating_alerts (snd (analyze_gaze_behavior first_away (clock_at 106)
       (Some looking_down) (Some (structure_of 150 200)) (0 :: real))) \<noteq> cheating_alerts first_away"
    by (simp add: alert_fired_run first_away_fields alert_fired_def)
  have incr: "sorted_wrt (<) (time_time (clock_at 106)
      # map (\<lambda>f. time_time (fr_clock f)) ?frames)"
    by (simp add: frame_at_def clock_at_def)
  have i: "(1 :: nat) < length ?frames" by simp
  have window: "time_time (fr_clock (?frames ! 1))
      < time_time (clock_at 106) + ALERT_COOLDOWN (config first_away)"
    by (simp add: frame_at_def clock_at_def first_away_fields default_config_def)
  have s1: "snd (analyze_gaze_behavior first_away (clock_at 106) (Some looking_down)
       (Some (structure_of 150 200)) (0 :: real)) = alert_fired"
    by (simp add: alert_fired_run)
  have t: "time_time (clock_at 106) = 106"
    by (simp add: clock_at_def)
  have two: "Suc 1 = 2" by simp
  note run = alert_cooldown [OF fired incr i window, unfolded s1 t two]
  have g: "fr_gaze (?frames ! 1) = Some looking_down"
    "fr_structure (?frames ! 1) = Some (structure_of 150 200)"
    "\<not> confidence looking_down < 0.3"
    by (simp_all add: frame_at_def looking_down_def gaze_of_def)
  have "res_alert_level (fst (run_analysis alert_fired ?frames) ! 1) = ''ONGOING_ALERT''"
    using run g by simp
  with run fired show ?thesis by blast
qed

text \<open>
  The claim as written fails: an alert fires at time 106, \<^verbatim>\<open>alert_active\<close> holds, and the
  call at time 107, inside the cooldown window and without a gaze, returns the alert level
  \<^verbatim>\<open>No gaze data\<close>, which is neither \<^verbatim>\<open>ONGOING_ALERT\<close> nor \<^verbatim>\<open>NO_ALERT\<close>.
\<close>

theorem cooldown_level_counterexample:
  "map res_alert_level
     (fst (run_analysis (CheatingDetector_init None (clock_at 0))
        [frame_at 100 (Some looking_down), frame_at 106 (Some looking_down),
         frame_at 107 None]))
     = [''NO_ALERT'', ''CHEATING_DETECTED'', ''No gaze data'']
   \<and> alert_active (snd (run_analysis (CheatingDetector_init None (clock_at 0))
        [frame_at 100 (Some looking_down), frame_at 106 (Some looking_down)]))"
proof -
  have "analyze_gaze_behavior alert_fired (clock_at 107) None (Some (structure_of 150 200))
          (0 :: real)
        = (create_detection_result alert_fired False ''No gaze data'' 107 None, alert_fired)"
    by (simp add: analyze_gaze_behavior_def clock_at_def)
  then show ?thesis
    by (simp add: frame_at_def first_away_run alert_fired_run alert_fired_fields
        create_detection_result_def)
qed

subsection \<open>The session summary\<close>

text \<open>
  C9, as the code has it. \<^verbatim>\<open>get_session_summary\<close> changes nothing in the detector, and
  two calls on the same detector return the same alert count, away time, score, pattern
  counters, alert log and behaviour analysis; \<^verbatim>\<open>session_duration\<close> and
  \<^verbatim>\<open>away_time_percentage\<close> are computed from the clock at each call, so that the two
  summaries are equal when the two clock readings are.
\<close>

theorem session_summary_repeat:
  "get_session_summary self clk2 =
     (get_session_summary self clk1)
       \<lparr> sum_session_duration := time_time clk2 - session_start_time self,
         sum_away_time_percentage :=
           (if time_time clk2 - session_start_time self > 0
            then (total_looking_away_time self / (time_time clk2 - session_start_time self)) * 100
            else 0) \<rparr>
   \<and> (time_time clk1 = time_time clk2
        \<longrightarrow> get_session_summary self clk1 = get_session_summary self clk2)"
proof (intro conjI impI)
  show "get_session_summary self clk2 =
     (get_session_summary self clk1)
       \<lparr> sum_session_duration := time_time clk2 - session_start_time self,
         sum_away_time_percentage :=
           (if time_time clk2 - session_start_time self > 0
            then (total_looking_away_time self / (time_time clk2 - session_start_time self)) * 100
            else 0) \<rparr>"
    by (simp add: get_session_summary_def Let_def)
next
  assume "time_time clk1 = time_time clk2"
  then show "get_session_summary self clk1 = get_session_summary self clk2"
    by (simp add: get_session_summary_def)
qed

theorem session_summary_repeat_witness:
  "get_session_summary first_away (clock_at 200) =
   get_session_summary first_away \<lparr> time_time = 200, datetime_now = ''2024-01-01T00:03:20'' \<rparr>"
proof -
  have "time_time (clock_at 200)
      = time_time \<lparr> time_time = 200, datetime_now = ''2024-01-01T00:03:20'' \<rparr>"
    by (simp add: clock_at_def)
  from session_summary_repeat [THEN conjunct2, THEN mp, OF this] show ?thesis .
qed

text \<open>
  The claim as written fails: on one detector, a summary taken at time 200 and one taken at
  time 201 differ in their session duration.
\<close>

theorem session_summary_counterexample:
  "sum_session_duration (get_session_summary first_away (clock_at 200)) = 200
   \<and> sum_session_duration (get_session_summary first_away (clock_at 201)) = 201
   \<and> get_session_summary first_away (clock_at 200)
       \<noteq> get_session_summary first_away (clock_at 201)"
proof -
  have a: "sum_session_duration (get_session_summary first_away (clock_at 200)) = 200"
    and b: "sum_session_duration (get_session_summary first_away (clock_at 201)) = 201"
    by (simp_all add: get_session_summary_def Let_def first_away_def CheatingDetector_init_def
        clock_at_def)
  have "get_session_summary first_away (clock_at 200)
       \<noteq> get_session_summary first_away (clock_at 201)"
  proof
    assume "get_session_summary first_away (clock_at 200)
       = get_session_summary first_away (clock_at 201)"
    then have "sum_session_duration (get_session_summary first_away (clock_at 200))
       = sum_session_duration (get_session_summary first_away (clock_at 201))"
      by simp
    with a b show False by simp
  qed
  with a b show ?thesis by simp
qed

section \<open>Properties of the calibrator\<close>

subsection \<open>What one update does\<close>

lemma establish_baseline_keeps:
  "frame_count (establish_baseline c) = frame_count c"
  "adaptation_frames (establish_baseline c) = adaptation_frames c"
  "calibration_data (establish_baseline c) = calibration_data c"
  by (simp_all add: establish_baseline_def Let_def)

lemma update_baseline_absent: "update_baseline c g None = (False, c)"
  by (simp add: update_baseline_def)

lemma update_baseline_fst:
  "fst (update_baseline c g fstruct) =
     (fstruct \<noteq> None \<and> adaptation_frames c \<le> frame_count c + 1)"
  by (cases fstruct) (simp_all add: update_baseline_def Let_def)

lemma update_baseline_counts:
  "adaptation_frames (snd (update_baseline c g fstruct)) = adaptation_frames c"
  "frame_count (snd (update_baseline c g fstruct)) =
     frame_count c + (if fstruct = None then 0 else 1)"
  by (cases fstruct; simp add: update_baseline_def Let_def establish_baseline_keeps)+

lemma update_baseline_data:
  "calibration_data (snd (update_baseline c g (Some fs))) =
     (calibration_data c)
       \<lparr> cd_eye_distances := cd_eye_distances (calibration_data c) @ [eye_distance fs],
         cd_face_dimensions := cd_face_dimensions (calibration_data c) @ [face_dimensions fs],
         cd_head_poses := cd_head_poses (calibration_data c)
                            @ [(get_or (gd_yaw g) 0, get_or (gd_pitch g) 0)] \<rparr>"
  by (simp add: update_baseline_def Let_def establish_baseline_keeps)

lemma update_baseline_establishes:
  assumes "adaptation_frames c \<le> frame_count c + 1"
  shows "face_baseline (snd (update_baseline c g (Some fs))) =
           Some \<lparr> fb_width = np_mean (map fst (cd_face_dimensions (calibration_data c)
                                               @ [face_dimensions fs])),
                  fb_height = np_mean (map snd (cd_face_dimensions (calibration_data c)
                                                @ [face_dimensions fs])),
                  fb_width_std = np_std (map fst (cd_face_dimensions (calibration_data c)
                                                  @ [face_dimensions fs])),
                  fb_height_std = np_std (map snd (cd_face_dimensions (calibration_data c)
                                                   @ [face_dimensions fs])) \<rparr>"
    and "eye_baseline (snd (update_baseline c g (Some fs))) =
           Some \<lparr> eb_distance = np_mean (cd_eye_distances (calibration_data c)
                                           @ [eye_distance fs]),
                  eb_distance_std = np_std (cd_eye_distances (calibration_data c)
                                            @ [eye_distance fs]) \<rparr>"
    and "head_pose_baseline (snd (update_baseline c g (Some fs))) =
           Some \<lparr> hp_yaw = np_mean (map fst (cd_head_poses (calibration_data c)
                       @ [(get_or (gd_yaw g) 0, get_or (gd_pitch g) 0)])),
                  hp_pitch = np_mean (map snd (cd_head_poses (calibration_data c)
                       @ [(get_or (gd_yaw g) 0, get_or (gd_pitch g) 0)])),
                  hp_yaw_std = np_std (map fst (cd_head_poses (calibration_data c)
                       @ [(get_or (gd_yaw g) 0, get_or (gd_pitch g) 0)])),
                  hp_pitch_std = np_std (map snd (cd_head_poses (calibration_data c)
                       @ [(get_or (gd_yaw g) 0, get_or (gd_pitch g) 0)])) \<rparr>"
  using assms by (simp_all add: update_baseline_def Let_def establish_baseline_def)

lemma run_updates_snd_Cons:
  "snd (run_updates c (x # xs)) = snd (run_updates (snd (update_baseline c (fst x) (snd x))) xs)"
  by (cases x) (simp add: case_prod_beta)

lemma run_updates_fst_Cons:
  "fst (run_updates c (x # xs)) =
     fst (update_baseline c (fst x) (snd x))
       # fst (run_updates (snd (update_baseline c (fst x) (snd x))) xs)"
  by (cases x) (simp add: case_prod_beta)

lemma run_updates_snoc:
  "snd (run_updates c (xs @ [x])) = snd (update_baseline (snd (run_updates c xs)) (fst x) (snd x))"
proof (induction xs arbitrary: c)
  case Nil
  show ?case by (cases x) (simp add: case_prod_beta)
next
  case (Cons y ys)
  show ?case using Cons.IH by (simp add: run_updates_snd_Cons del: run_updates.simps)
qed

lemma run_updates_counts:
  "adaptation_frames (snd (run_updates c calls)) = adaptation_frames c
   \<and> frame_count (snd (run_updates c calls)) =
       frame_count c + int (length (filter (\<lambda>x. snd x \<noteq> None) calls))"
proof (induction calls arbitrary: c)
  case Nil
  show ?case by simp
next
  case (Cons x xs)
  show ?case
    using Cons.IH [of "snd (update_baseline c (fst x) (snd x))"]
    by (simp add: run_updates_snd_Cons update_baseline_counts del: run_updates.simps)
qed

lemma run_updates_nth:
  assumes "i < length calls"
  shows "fst (run_updates c calls) ! i =
           (snd (calls ! i) \<noteq> None
            \<and> adaptation_frames c
                \<le> frame_count c
                    + int (length (filter (\<lambda>x. snd x \<noteq> None) (take (Suc i) calls))))"
  using assms
proof (induction calls arbitrary: c i)
  case Nil
  then show ?case by simp
next
  case (Cons x xs)
  show ?case
  proof (cases i)
    case 0
    then show ?thesis
      by (simp add: run_updates_fst_Cons update_baseline_fst del: run_updates.simps)
  next
    case (Suc j)
    with Cons.prems have j: "j < length xs" by simp
    show ?thesis
      using Cons.IH [OF j, of "snd (update_baseline c (fst x) (snd x))"] Suc
      by (simp add: run_updates_fst_Cons update_baseline_counts add.assoc
          del: run_updates.simps)
  qed
qed

lemma run_updates_replicate_data:
  "calibration_data (snd (run_updates c (replicate n (g, Some fs)))) =
     (calibration_data c)
       \<lparr> cd_eye_distances :=
           cd_eye_distances (calibration_data c) @ replicate n (eye_distance fs),
         cd_face_dimensions :=
           cd_face_dimensions (calibration_data c) @ replicate n (face_dimensions fs),
         cd_head_poses :=
           cd_head_poses (calibration_data c)
             @ replicate n (get_or (gd_yaw g) 0, get_or (gd_pitch g) 0) \<rparr>"
proof (induction n arbitrary: c)
  case 0
  show ?case by simp
next
  case (Suc n)
  show ?case
    using Suc.IH [of "snd (update_baseline c g (Some fs))"]
    by (simp add: run_updates_snd_Cons update_baseline_data replicate_app_Cons_same
        del: run_updates.simps)
qed

subsection \<open>The concrete calibration\<close>

lemma thirty: "replicate 30 x = replicate 29 x @ [x]"
proof -
  have "(30::nat) = Suc 29" by simp
  then show ?thesis by (simp only: replicate_Suc replicate_append_same)
qed

lemma np_mean_replicate: "0 < n \<Longrightarrow> np_mean (replicate n x) = x"
  by (simp add: np_mean_def sum_list_replicate)

lemma np_std_replicate: "0 < n \<Longrightarrow> np_std (replicate n x) = 0"
  by (simp add: np_std_def np_mean_replicate)

lemma calibrated_example_last_step:
  assumes "frame_count c = 29" and "adaptation_frames c = 30"
    and "calibration_data c =
     \<lparr> cd_eye_distances = replicate 29 60,
       cd_face_dimensions = replicate 29 (100, 100),
       cd_head_poses = replicate 29 (0, 0),
       cd_pupil_positions = [] \<rparr>"
  shows "snd (update_baseline c (raw_gaze 0 0) (Some (structure_of 100 100)))
           = calibrated_example"
proof -
  have app: "\<And>y :: real. replicate 29 y @ [y] = replicate 30 y"
       "\<And>y :: real \<times> real. replicate 29 y @ [y] = replicate 30 y"
    by (simp_all add: thirty)
  show ?thesis
    using assms
    by (cases c)
      (simp add: update_baseline_def Let_def establish_baseline_def
        structure_of_def raw_gaze_def get_or_def app np_mean_replicate np_std_replicate
        calibrated_example_def)
qed

lemma calibrated_example_run:
  "snd (run_updates GazeCalibrator_init
       (replicate 30 (raw_gaze 0 0, Some (structure_of 100 100)))) = calibrated_example"
proof -
  let ?x = "(raw_gaze 0 0, Some (structure_of 100 100))"
  let ?c29 = "snd (run_updates GazeCalibrator_init (replicate 29 ?x))"
  have cnt: "frame_count ?c29 = 29" "adaptation_frames ?c29 = 30"
    by (simp_all add: run_updates_counts GazeCalibrator_init_def)
  have dat: "calibration_data ?c29 =
     \<lparr> cd_eye_distances = replicate 29 60,
       cd_face_dimensions = replicate 29 (100, 100),
       cd_head_poses = replicate 29 (0, 0),
       cd_pupil_positions = [] \<rparr>"
    by (simp add: run_updates_replicate_data GazeCalibrator_init_def structure_of_def
      raw_gaze_def get_or_def)
  show ?thesis
    unfolding thirty run_updates_snoc
    using calibrated_example_last_step [OF cnt dat] by simp
qed

lemma calibrated_example_rederived:
  "map_option fb_width (face_baseline (snd (update_baseline calibrated_example (raw_gaze 0 0)
      (Some (structure_of 200 200))))) = Some (3200 / 31)"
proof -
  have cnt: "adaptation_frames calibrated_example \<le> frame_count calibrated_example + 1"
    by (simp add: calibrated_example_def)
  have dat: "cd_face_dimensions (calibration_data calibrated_example) = replicate 30 (100, 100)"
    by (simp add: calibrated_example_def)
  have "map_option fb_width (face_baseline (snd (update_baseline calibrated_example
            (raw_gaze 0 0) (Some (structure_of 200 200)))))
          = Some (np_mean (map fst (replicate 30 (100, 100)
                                     @ [face_dimensions (structure_of 200 200)])))"
    by (simp add: update_baseline_establishes(1) [OF cnt] dat)
  also have "\<dots> = Some (3200 / 31)"
    by (simp add: np_mean_def structure_of_def sum_list_replicate)
  finally show ?thesis .
qed

subsection \<open>When an update returns true\<close>

text \<open>
  C6, as the code has it. From a fresh calibrator, a call of \<^verbatim>\<open>update_baseline\<close> returns
  true exactly when it has a facial structure and is at least the thirtieth call that has
  one: on the frame at which the counter reaches 30 and on every later frame with a facial
  structure. It returns false on the calls before, and on every call without a facial
  structure.
\<close>

theorem update_baseline_returns:
  assumes "i < length calls"
  shows "fst (run_updates GazeCalibrator_init calls) ! i =
           (snd (calls ! i) \<noteq> None
            \<and> 30 \<le> length (filter (\<lambda>x. snd x \<noteq> None) (take (Suc i) calls)))"
  using run_updates_nth [OF assms, of GazeCalibrator_init]
  by (simp add: GazeCalibrator_init_def)


theorem update_baseline_returns_witness:
  "fst (run_updates GazeCalibrator_init
          (replicate 31 (raw_gaze 0 0, Some (structure_of 100 100)))) ! 28 = False
   \<and> fst (run_updates GazeCalibrator_init
          (replicate 31 (raw_gaze 0 0, Some (structure_of 100 100)))) ! 29 = True"
  using update_baseline_returns [of 28 "replicate 31 (raw_gaze 0 0, Some (structure_of 100 100))"]
    update_baseline_returns [of 29 "replicate 31 (raw_gaze 0 0, Some (structure_of 100 100))"]
  by (simp add: take_replicate)

text \<open>
  The claim as written fails: of 31 calls with a facial structure, the thirtieth returns true
  and so does the thirty-first.
\<close>

theorem returns_true_once_counterexample:
  "fst (run_updates GazeCalibrator_init
          (replicate 31 (raw_gaze 0 0, Some (structure_of 100 100)))) ! 29 = True
   \<and> fst (run_updates GazeCalibrator_init
          (replicate 31 (raw_gaze 0 0, Some (structure_of 100 100)))) ! 30 = True"
  using run_updates_nth [of 29 "replicate 31 (raw_gaze 0 0, Some (structure_of 100 100))"
      GazeCalibrator_init]
    run_updates_nth [of 30 "replicate 31 (raw_gaze 0 0, Some (structure_of 100 100))"
      GazeCalibrator_init]
  by (simp add: take_replicate GazeCalibrator_init_def)


subsection \<open>Every update past the threshold derives the baselines again\<close>

text \<open>
  C2, as the code has it. Every call of \<^verbatim>\<open>update_baseline\<close> with a facial structure
  that brings the frame counter to the adaptation threshold or beyond returns true, appends
  its sample to the accumulator, increments the counter and sets the face, eye and head-pose
  baselines to the means and population standard deviations of all samples accumulated so
  far, the sample of this call included. A call without a facial structure returns false and
  leaves the calibrator as it is.
\<close>

theorem update_baseline_rederives:
  assumes "adaptation_frames c \<le> frame_count c + 1"
  shows "update_baseline c g (Some fs) =
     (True,
      c\<lparr> calibration_data :=
           (calibration_data c)
             \<lparr> cd_face_dimensions :=
                 cd_face_dimensions (calibration_data c) @ [face_dimensions fs],
               cd_eye_distances :=
                 cd_eye_distances (calibration_data c) @ [eye_distance fs],
               cd_head_poses :=
                 cd_head_poses (calibration_data c)
                   @ [(get_or (gd_yaw g) 0, get_or (gd_pitch g) 0)] \<rparr>,
         frame_count := frame_count c + 1,
         face_baseline :=
           Some \<lparr> fb_width = np_mean (map fst (cd_face_dimensions (calibration_data c)
                                               @ [face_dimensions fs])),
                  fb_height = np_mean (map snd (cd_face_dimensions (calibration_data c)
                                                @ [face_dimensions fs])),
                  fb_width_std = np_std (map fst (cd_face_dimensions (calibration_data c)
                                                  @ [face_dimensions fs])),
                  fb_height_std = np_std (map snd (cd_face_dimensions (calibration_data c)
                                                   @ [face_dimensions fs])) \<rparr>,
         eye_baseline :=
           Some \<lparr> eb_distance = np_mean (cd_eye_distances (calibration_data c)
                                           @ [eye_distance fs]),
                  eb_distance_std = np_std (cd_eye_distances (calibration_data c)
                                            @ [eye_distance fs]) \<rparr>,
         head_pose_baseline :=
           Some \<lparr> hp_yaw = np_mean (map fst (cd_head_poses (calibration_data c)
                       @ [(get_or (gd_yaw g) 0, get_or (gd_pitch g) 0)])),
                  hp_pitch = np_mean (map snd (cd_head_poses (calibration_data c)
                       @ [(get_or (gd_yaw g) 0, get_or (gd_pitch g) 0)])),
                  hp_yaw_std = np_std (map fst (cd_head_poses (calibration_data c)
                       @ [(get_or (gd_yaw g) 0, get_or (gd_pitch g) 0)])),
                  hp_pitch_std = np_std (map snd (cd_head_poses (calibration_data c)
                       @ [(get_or (gd_yaw g) 0, get_or (gd_pitch g) 0)])) \<rparr> \<rparr>)
   \<and> update_baseline c g None = (False, c)"
  using assms
  by (simp add: update_baseline_def Let_def establish_baseline_def)

theorem update_baseline_rederives_witness:
  "adaptation_frames calibrated_example \<le> frame_count calibrated_example + 1
   \<and> map_option fb_width (face_baseline (snd (update_baseline calibrated_example (raw_gaze 0 0)
         (Some (structure_of 200 200))))) = Some (3200 / 31)
   \<and> length (cd_face_dimensions (calibration_data (snd (update_baseline calibrated_example
         (raw_gaze 0 0) (Some (structure_of 200 200)))))) = 31
   \<and> frame_count (snd (update_baseline calibrated_example (raw_gaze 0 0)
         (Some (structure_of 200 200)))) = 31"
proof -
  have h: "adaptation_frames calibrated_example \<le> frame_count calibrated_example + 1"
    by (simp add: calibrated_example_def)
  have d: "cd_face_dimensions (calibration_data calibrated_example) = replicate 30 (100, 100)"
    and n: "frame_count calibrated_example = 30"
    by (simp_all add: calibrated_example_def)
  note u = update_baseline_rederives [OF h, of "raw_gaze 0 0" "structure_of 200 200",
      THEN conjunct1]
  show ?thesis
    unfolding u using h
    by (simp add: d n np_mean_def structure_of_def sum_list_replicate)
qed

text \<open>
  The claim as written fails: after thirty frames with a face 100 wide the calibrator is
  calibrated with a baseline width of 100; one more frame with a face 200 wide moves the
  baseline width to 3200 / 31.
\<close>

theorem baselines_frozen_counterexample:
  "is_calibrated (snd (run_updates GazeCalibrator_init
       (replicate 30 (raw_gaze 0 0, Some (structure_of 100 100)))))
   \<and> map_option fb_width (face_baseline (snd (run_updates GazeCalibrator_init
       (replicate 30 (raw_gaze 0 0, Some (structure_of 100 100)))))) = Some 100
   \<and> map_option fb_width (face_baseline (snd (update_baseline
         (snd (run_updates GazeCalibrator_init
            (replicate 30 (raw_gaze 0 0, Some (structure_of 100 100)))))
         (raw_gaze 0 0) (Some (structure_of 200 200))))) = Some (3200 / 31)"
proof -
  have "is_calibrated calibrated_example"
    by (simp add: is_calibrated_def calibrated_example_def)
  moreover have "map_option fb_width (face_baseline calibrated_example) = Some 100"
    by (simp add: calibrated_example_def)
  ultimately show ?thesis
    using calibrated_example_rederived by (simp add: calibrated_example_run)
qed

subsection \<open>The calibrated gaze\<close>






end
